theory Spec2Isabelle
  imports Complex_Main "HOL-Library.Multiset"
begin

section \<open>Numeric results of the array library\<close>

text \<open>
  The notebook works on one-dimensional arrays of trial scalars loaded from disk. An array
  is modelled as a list of reals: finite arithmetic is exact, and the special values that
  the array library produces where real arithmetic has no answer (a division by zero, the
  mean of no values) are written out in \<open>npfloat\<close>. NaN and infinite entries inside
  a loaded array are outside this model.

  A real number has one zero where a float has two. The sign of a zero changes a result
  in one place only, a division by it, so the sign of a zero divisor is an argument of
  the division: \<open>zero_sign\<close>.

  Exceptions are values of \<open>error\<close>, named after the Python exception classes that the
  interpreter and the array library raise.
\<close>

datatype error = ValueError | IndexError | AxisError | UnboundLocalError | FileNotFoundError

datatype npfloat = Fin real | PosInf | NegInf | NaN

datatype zero_sign = PosZero | NegZero

text \<open>
  \<^verbatim>\<open>a / b\<close> on two array scalars: a zero divisor gives a warning and an infinity or NaN,
  never an exception. The infinity has the sign of the numerator over \<^verbatim>\<open>0.0\<close> and the
  opposite sign over \<^verbatim>\<open>-0.0\<close>; \<open>b_zero\<close> says which of the two a zero \<open>b\<close> is.
\<close>

definition np_div :: "real \<Rightarrow> real \<Rightarrow> zero_sign \<Rightarrow> npfloat" where
  "np_div a b b_zero =
     (if b \<noteq> 0 then Fin (a / b)
      else if 0 < a then (case b_zero of PosZero \<Rightarrow> PosInf | NegZero \<Rightarrow> NegInf)
      else if a < 0 then (case b_zero of PosZero \<Rightarrow> NegInf | NegZero \<Rightarrow> PosInf)
      else NaN)"

text \<open>\<^verbatim>\<open>r > t\<close> for a quotient \<open>r\<close> and a finite \<open>t\<close>: every comparison with NaN is false.\<close>

fun np_gt :: "npfloat \<Rightarrow> real \<Rightarrow> bool" where
  "np_gt (Fin x) t = (t < x)"
| "np_gt PosInf t = True"
| "np_gt NegInf t = False"
| "np_gt NaN t = False"

text \<open>
  \<^verbatim>\<open>np.max(a)\<close> and \<^verbatim>\<open>np.min(a)\<close> on a one-dimensional array: a reduction with no
  identity, which raises ValueError on a zero-size array.
\<close>

fun np_max :: "real list \<Rightarrow> error + real" where
  "np_max [] = Inl ValueError"
| "np_max (x # xs) = Inr (fold max xs x)"

fun np_min :: "real list \<Rightarrow> error + real" where
  "np_min [] = Inl ValueError"
| "np_min (x # xs) = Inr (fold min xs x)"

section \<open>Outlier clipping\<close>

text \<open>
  The clipping of the mean-with-error-bars cell:
  \<^verbatim>\<open>
  if np.max(pixelcnn_mi_estimate) / np.min(pixelcnn_mi_estimate) > 2:
      pixelcnn_mi_estimate[pixelcnn_mi_estimate > 2 * np.min(pixelcnn_mi_estimate)] = np.min(pixelcnn_mi_estimate)
  \<close>
  The notebook writes the threshold as the literal 2 in both places; here it is the
  parameter \<open>ratio_threshold\<close>, and the notebook's instance has 2 for it. The assigned
  value and the mask are both computed from the array before it is changed. \<open>min_zero\<close>
  is the sign of the zero that \<^verbatim>\<open>np.min\<close> returns when the minimum is zero; it is not
  looked at for any other minimum.
\<close>

definition outlier_clip :: "zero_sign \<Rightarrow> real \<Rightarrow> real list \<Rightarrow> error + real list" where
  "outlier_clip min_zero ratio_threshold values =
     (case np_max values of
        Inl e \<Rightarrow> Inl e
      | Inr mx \<Rightarrow>
          (case np_min values of
             Inl e \<Rightarrow> Inl e
           | Inr mn \<Rightarrow>
               if np_gt (np_div mx mn min_zero) ratio_threshold
               then Inr (map (\<lambda>x. if ratio_threshold * mn < x then mn else x) values)
               else Inr values))"

section \<open>Markers\<close>

text \<open>
  \<^verbatim>\<open>
  def marker_for_psf(psf_name):
      if psf_name =='one':
          marker = 'o'
      elif psf_name == 'four':
          marker = 's'
      elif psf_name == 'diffuser':
          marker = '*'
      elif psf_name == 'uc':
          marker = 'x'
      elif psf_name =='two':
          marker = 'd'
      return marker
  \<close>
  There is no \<^verbatim>\<open>else\<close>: for any other name the local variable is never bound and the
  \<^verbatim>\<open>return\<close> raises UnboundLocalError.
\<close>

definition marker_for_psf :: "string \<Rightarrow> error + string" where
  "marker_for_psf psf_name =
     (if psf_name = ''one'' then Inr ''o''
      else if psf_name = ''four'' then Inr ''s''
      else if psf_name = ''diffuser'' then Inr ''*''
      else if psf_name = ''uc'' then Inr ''x''
      else if psf_name = ''two'' then Inr ''d''
      else Inl UnboundLocalError)"

section \<open>Confidence interval of the classifier accuracies\<close>

text \<open>
  \<^verbatim>\<open>np.mean(a)\<close> on a one-dimensional array: the mean of no values is NaN, with a warning
  and no exception.
\<close>

fun np_mean :: "real list \<Rightarrow> npfloat" where
  "np_mean [] = NaN"
| "np_mean (x # xs) = Fin (sum_list (x # xs) / real (length (x # xs)))"

text \<open>
  \<^verbatim>\<open>np.percentile(a, q)\<close> with the default linear interpolation: \<open>q\<close> outside
  \<open>[0, 100]\<close> raises ValueError before the array is looked at; on a zero-size array the
  read of the last sorted element raises IndexError; otherwise the value at the virtual
  index \<open>(n - 1) * q / 100\<close> of the sorted array, interpolated between its two
  neighbours.
\<close>

definition np_percentile :: "real list \<Rightarrow> real \<Rightarrow> error + real" where
  "np_percentile a q =
     (if q < 0 \<or> 100 < q then Inl ValueError
      else if a = [] then Inl IndexError
      else
        let arr = sort a;
            values_count = length a;
            virtual_index = real (values_count - 1) * (q / 100);
            previous_index = nat \<lfloor>virtual_index\<rfloor>;
            next_index = min (previous_index + 1) (values_count - 1);
            gamma = virtual_index - real previous_index
        in Inr (arr ! previous_index + (arr ! next_index - arr ! previous_index) * gamma))"

text \<open>Indexing a list or an array with a non-negative index, as \<^verbatim>\<open>enumerate\<close> yields.\<close>

definition index :: "'a list \<Rightarrow> nat \<Rightarrow> error + 'a" where
  "index xs i = (if i < length xs then Inr (xs ! i) else Inl IndexError)"

text \<open>
  The accumulators of the accuracy-against-information cell, for one PSF:
  \<^verbatim>\<open>
  for photon_idx, photon_count in enumerate(mean_photon_count_list):
      if photon_count in valid_photon_counts:
          mi_value = mi_list_use[psf_idx][photon_idx]
          classifier_10_trials = classifier_all_trials_across_psfs[psf_idx][photon_idx]
          classifier_mean = np.mean(classifier_10_trials)
          ax.scatter(mi_value, classifier_mean, color=color,
                     marker=marker_for_psf(psf_name), s=50, zorder=100)
          mi_means_across_photons.append(mi_value)
          classifier_means_across_photons.append(classifier_mean)
          classifier_lower_across_photons.append(
              np.percentile(classifier_10_trials, 100 - 100 * (1 + confidence_level) / 2))
          classifier_upper_across_photons.append(
              np.percentile(classifier_10_trials, 100 * (1 + confidence_level) / 2))
  \<close>
  \<open>mi_row\<close> is \<^verbatim>\<open>mi_list_use[psf_idx]\<close> and \<open>trials\<close> is
  \<^verbatim>\<open>classifier_all_trials_across_psfs[psf_idx]\<close>. Of the drawing call only the marker
  lookup is kept, which can raise. An exception leaves the accumulators as they are at the
  raise, so a failing run returns them with the error.
\<close>

record interval_state =
  mi_means_across_photons :: "real list"
  classifier_means_across_photons :: "npfloat list"
  classifier_lower_across_photons :: "real list"
  classifier_upper_across_photons :: "real list"

definition empty_interval_state :: interval_state where
  "empty_interval_state =
     \<lparr>mi_means_across_photons = [], classifier_means_across_photons = [],
      classifier_lower_across_photons = [], classifier_upper_across_photons = []\<rparr>"

definition confidence_interval_step ::
  "real \<Rightarrow> int list \<Rightarrow> string \<Rightarrow> real list \<Rightarrow> real list list \<Rightarrow> nat \<Rightarrow> int
     \<Rightarrow> interval_state \<Rightarrow> (error \<times> interval_state) + interval_state" where
  "confidence_interval_step confidence_level valid_photon_counts psf_name mi_row trials
       photon_idx photon_count st =
     (if photon_count \<notin> set valid_photon_counts then Inr st
      else case index mi_row photon_idx of
        Inl e \<Rightarrow> Inl (e, st)
      | Inr mi_value \<Rightarrow>
          (case index trials photon_idx of
             Inl e \<Rightarrow> Inl (e, st)
           | Inr classifier_10_trials \<Rightarrow>
               let classifier_mean = np_mean classifier_10_trials
               in case marker_for_psf psf_name of
                    Inl e \<Rightarrow> Inl (e, st)
                  | Inr marker \<Rightarrow>
                      let st1 = st\<lparr>mi_means_across_photons :=
                                     mi_means_across_photons st @ [mi_value],
                                   classifier_means_across_photons :=
                                     classifier_means_across_photons st @ [classifier_mean]\<rparr>
                      in case np_percentile classifier_10_trials
                                (100 - 100 * (1 + confidence_level) / 2) of
                           Inl e \<Rightarrow> Inl (e, st1)
                         | Inr lo \<Rightarrow>
                             let st2 = st1\<lparr>classifier_lower_across_photons :=
                                              classifier_lower_across_photons st1 @ [lo]\<rparr>
                             in case np_percentile classifier_10_trials
                                       (100 * (1 + confidence_level) / 2) of
                                  Inl e \<Rightarrow> Inl (e, st2)
                                | Inr hi \<Rightarrow>
                                    Inr (st2\<lparr>classifier_upper_across_photons :=
                                               classifier_upper_across_photons st2
                                                 @ [hi]\<rparr>)))"

fun confidence_interval_loop ::
  "real \<Rightarrow> int list \<Rightarrow> string \<Rightarrow> real list \<Rightarrow> real list list \<Rightarrow> nat \<Rightarrow> int list
     \<Rightarrow> interval_state \<Rightarrow> (error \<times> interval_state) + interval_state" where
  "confidence_interval_loop cl valid psf_name mi_row trials photon_idx [] st = Inr st"
| "confidence_interval_loop cl valid psf_name mi_row trials photon_idx (photon_count # rest) st =
     (case confidence_interval_step cl valid psf_name mi_row trials photon_idx photon_count st of
        Inl e \<Rightarrow> Inl e
      | Inr st' \<Rightarrow>
          confidence_interval_loop cl valid psf_name mi_row trials (Suc photon_idx) rest st')"

definition confidence_interval ::
  "real \<Rightarrow> int list \<Rightarrow> string \<Rightarrow> real list \<Rightarrow> real list list \<Rightarrow> int list
     \<Rightarrow> (error \<times> interval_state) + interval_state" where
  "confidence_interval confidence_level valid_photon_counts psf_name mi_row trials
       photon_counts =
     confidence_interval_loop confidence_level valid_photon_counts psf_name mi_row trials 0
       photon_counts empty_interval_state"

text \<open>
  The conditions the loop keeps: the entries of a per-photon-count sequence whose photon
  count is among the valid ones.
\<close>

definition selected :: "int list \<Rightarrow> int list \<Rightarrow> 'a list \<Rightarrow> 'a list" where
  "selected valid_photon_counts photon_counts xs =
     map snd (filter (\<lambda>(pc, x). pc \<in> set valid_photon_counts) (zip photon_counts xs))"

text \<open>
  The percentile as the specification means it, for comparison with the library call
  above: on the trial values in ascending order \<open>s\<close>, the \<open>q\<close>-th percentile is the
  value at position \<open>(n - 1) * q / 100\<close>, counted from 0, taken linearly between the two
  neighbouring order statistics.
\<close>

definition percentile_of_sorted :: "real list \<Rightarrow> real \<Rightarrow> real" where
  "percentile_of_sorted s q =
     (let h = real (length s - 1) * (q / 100);
          k = nat \<lfloor>h\<rfloor>
      in s ! k + (s ! min (k + 1) (length s - 1) - s ! k) * (h - real k))"

section \<open>Minimum over the trials\<close>

text \<open>
  \<^verbatim>\<open>np.min(rows, axis=1)\<close> on a Python list of one-dimensional arrays. The list is first
  made an array: no rows give a one-dimensional array, which has no axis 1 (AxisError);
  rows of different lengths do not make an array (ValueError; releases of the library
  before 1.24 fail at the axis instead, with AxisError, a subclass of ValueError); rows of
  length zero give a reduction over no values (ValueError).
\<close>

definition minimum_aggregate :: "real list list \<Rightarrow> error + real list" where
  "minimum_aggregate rows =
     (case rows of
        [] \<Rightarrow> Inl AxisError
      | r # rs \<Rightarrow>
          if \<exists>r' \<in> set rs. length r' \<noteq> length r then Inl ValueError
          else if r = [] then Inl ValueError
          else Inr (map (\<lambda>v. fold min (tl v) (hd v)) rows))"

section \<open>Artifact paths\<close>

text \<open>\<^verbatim>\<open>'{}'.format(n)\<close> for an integer: its decimal digits, with a sign when negative.\<close>

fun digits :: "nat \<Rightarrow> string" where
  "digits n =
     (if n < 10 then [''0123456789'' ! n]
      else digits (n div 10) @ [''0123456789'' ! (n mod 10)])"

declare digits.simps [simp del]

definition str_int :: "int \<Rightarrow> string" where
  "str_int i = (if i < 0 then CHR ''-'' # digits (nat (- i)) else digits (nat i))"

text \<open>
  The three format strings of the notebook, each appended to its folder variable with no
  separator in between:
  \<^verbatim>\<open>
  mi_folder + 'cifar10_mi_estimates/gaussian_mi_estimate_{}_photon_count_{}_psf.npy'
                  .format(photon_count, psf_name)
  mi_folder + 'cifar10_mi_estimates/pixelcnn_mi_estimate_{}_photon_count_{}_psf.npy'
                  .format(photon_count, psf_name)
  classifier_folder + 'classifier_results/cifar_test_accuracy_{}_mean_photon_count_{}_psf_{}_bias_{}_model.npy'
                  .format(photon_count, psf_name, bias, 'cnn')
  \<close>
\<close>

definition gaussian_mi_path :: "string \<Rightarrow> int \<Rightarrow> string \<Rightarrow> string" where
  "gaussian_mi_path mi_folder photon_count psf_name =
     mi_folder @ ''cifar10_mi_estimates/gaussian_mi_estimate_'' @ str_int photon_count
       @ ''_photon_count_'' @ psf_name @ ''_psf.npy''"

definition pixelcnn_mi_path :: "string \<Rightarrow> int \<Rightarrow> string \<Rightarrow> string" where
  "pixelcnn_mi_path mi_folder photon_count psf_name =
     mi_folder @ ''cifar10_mi_estimates/pixelcnn_mi_estimate_'' @ str_int photon_count
       @ ''_photon_count_'' @ psf_name @ ''_psf.npy''"

definition classifier_path :: "string \<Rightarrow> int \<Rightarrow> string \<Rightarrow> int \<Rightarrow> string \<Rightarrow> string" where
  "classifier_path classifier_folder photon_count psf_name bias model =
     classifier_folder @ ''classifier_results/cifar_test_accuracy_'' @ str_int photon_count
       @ ''_mean_photon_count_'' @ psf_name @ ''_psf_'' @ str_int bias @ ''_bias_''
       @ model @ ''_model.npy''"

text \<open>
  The naming convention as the specification words it, for comparison with the format
  strings above:
  \<^verbatim>\<open><root>/<dataset>_mi_estimates/<estimator>_mi_estimate_<photon_count>_photon_count_<psf_name>_psf.npy\<close>
  and
  \<^verbatim>\<open><root>/classifier_results/<dataset>_test_accuracy_<photon_count>_mean_photon_count_<psf_name>_psf_<bias>_bias_<model>_model.npy\<close>.
\<close>

definition spec_mi_path :: "string \<Rightarrow> string \<Rightarrow> string \<Rightarrow> int \<Rightarrow> string \<Rightarrow> string" where
  "spec_mi_path root_dir dataset estimator photon_count psf_name =
     root_dir @ ''/'' @ dataset @ ''_mi_estimates/'' @ estimator @ ''_mi_estimate_''
       @ str_int photon_count @ ''_photon_count_'' @ psf_name @ ''_psf.npy''"

definition spec_classifier_path ::
  "string \<Rightarrow> string \<Rightarrow> int \<Rightarrow> string \<Rightarrow> int \<Rightarrow> string \<Rightarrow> string" where
  "spec_classifier_path root_dir dataset photon_count psf_name bias model =
     root_dir @ ''/classifier_results/'' @ dataset @ ''_test_accuracy_'' @ str_int photon_count
       @ ''_mean_photon_count_'' @ psf_name @ ''_psf_'' @ str_int bias @ ''_bias_''
       @ model @ ''_model.npy''"

section \<open>Loading the artifacts\<close>

text \<open>
  The files on disk, by path; each holds a one-dimensional array of trial scalars.
  \<^verbatim>\<open>np.load(path)\<close> returns a fresh array with the file's content, and raises
  FileNotFoundError where there is no file. It is given no expected length and checks none.
\<close>

type_synonym filesystem = "string \<Rightarrow> real list option"

definition np_load :: "filesystem \<Rightarrow> string \<Rightarrow> error + real list" where
  "np_load fs path = (case fs path of None \<Rightarrow> Inl FileNotFoundError | Some a \<Rightarrow> Inr a)"

text \<open>The label sets and the bias of the notebook's parameter cell.\<close>

definition psf_names :: "string list" where
  "psf_names = [''one'', ''four'', ''diffuser'']"

definition mean_photon_count_list :: "int list" where
  "mean_photon_count_list = [20, 40, 60, 80, 100, 150, 200, 250, 300]"

definition bias :: int where
  "bias = 10"

subsection \<open>The minimum plot\<close>






subsection \<open>The mean plot with error bars\<close>

text \<open>
  \<^verbatim>\<open>
  for photon_count in mean_photon_count_list:
      gaussian_mi_estimate = np.load(...gaussian...)
      pixelcnn_mi_estimate = np.load(...pixelcnn...)
      if np.max(pixelcnn_mi_estimate) / np.min(pixelcnn_mi_estimate) > 2:
          pixelcnn_mi_estimate[pixelcnn_mi_estimate > 2 * np.min(pixelcnn_mi_estimate)] = np.min(pixelcnn_mi_estimate)
      gaussian_across_photons.append(gaussian_mi_estimate)
      pixelcnn_across_photons.append(pixelcnn_mi_estimate)
  error_lo, error_hi, mean = confidence_bars(gaussian_across_photons, 9)
  error_lo_2, error_hi_2, mean_2 = confidence_bars(pixelcnn_across_photons, 9)
  \<close>
  The pair of lists is what the loop hands to the two calls of \<^verbatim>\<open>confidence_bars\<close>, a
  helper imported from another module. Each load gives an array of its own, so the
  assignment into the PixelCNN array touches no other array. \<open>min_zero_of\<close> gives, for
  the array stored at a path, the sign of its minimum when that minimum is zero.
\<close>

fun mean_plot_photons ::
  "filesystem \<Rightarrow> (string \<Rightarrow> zero_sign) \<Rightarrow> string \<Rightarrow> string \<Rightarrow> int list
     \<Rightarrow> real list list \<times> real list list \<Rightarrow> error + real list list \<times> real list list" where
  "mean_plot_photons fs min_zero_of mi_folder psf_name [] acc = Inr acc"
| "mean_plot_photons fs min_zero_of mi_folder psf_name (photon_count # rest)
       (gaussians, pixelcnns) =
     (case np_load fs (gaussian_mi_path mi_folder photon_count psf_name) of
        Inl e \<Rightarrow> Inl e
      | Inr gaussian_mi_estimate \<Rightarrow>
          (case np_load fs (pixelcnn_mi_path mi_folder photon_count psf_name) of
             Inl e \<Rightarrow> Inl e
           | Inr pixelcnn_mi_estimate \<Rightarrow>
               (case outlier_clip
                       (min_zero_of (pixelcnn_mi_path mi_folder photon_count psf_name)) 2
                       pixelcnn_mi_estimate of
                  Inl e \<Rightarrow> Inl e
                | Inr clipped \<Rightarrow>
                    mean_plot_photons fs min_zero_of mi_folder psf_name rest
                      (gaussians @ [gaussian_mi_estimate], pixelcnns @ [clipped]))))"

definition mean_plot_inputs ::
  "filesystem \<Rightarrow> (string \<Rightarrow> zero_sign) \<Rightarrow> string \<Rightarrow> string \<Rightarrow> int list
     \<Rightarrow> error + real list list \<times> real list list" where
  "mean_plot_inputs fs min_zero_of mi_folder psf_name photon_counts =
     mean_plot_photons fs min_zero_of mi_folder psf_name photon_counts ([], [])"

subsection \<open>The classifier results\<close>

text \<open>
  \<^verbatim>\<open>
  classifier_all_trials_across_psfs = [] # 4 x 9x 10 array, 4 psfs, 9 photon counts, 10 trials on each one
  for psf_name in psf_names:
      classifier_across_photons = []
      for photon_count in mean_photon_count_list:
          result = np.load(classifier_folder + '...'.format(photon_count, psf_name, bias, 'cnn'))
          classifier_across_photons.append(result)
      classifier_across_photons = np.array(classifier_across_photons)
      classifier_all_trials_across_psfs.append(classifier_across_photons)
  classifier_all_trials_across_psfs = np.array(classifier_all_trials_across_psfs)
  \<close>
  \<^verbatim>\<open>np.array\<close> of a list of arrays keeps the values when the arrays have one shape, and
  raises ValueError when they do not (releases of the library before 1.24 warn instead).
\<close>

fun load_classifier_photons ::
  "filesystem \<Rightarrow> string \<Rightarrow> string \<Rightarrow> int \<Rightarrow> int list \<Rightarrow> real list list
     \<Rightarrow> error + real list list" where
  "load_classifier_photons fs classifier_folder psf_name b [] acc = Inr acc"
| "load_classifier_photons fs classifier_folder psf_name b (photon_count # rest) acc =
     (case np_load fs (classifier_path classifier_folder photon_count psf_name b ''cnn'') of
        Inl e \<Rightarrow> Inl e
      | Inr result \<Rightarrow>
          load_classifier_photons fs classifier_folder psf_name b rest (acc @ [result]))"

definition np_array_rows :: "real list list \<Rightarrow> error + real list list" where
  "np_array_rows rows =
     (case rows of
        [] \<Rightarrow> Inr rows
      | r # rs \<Rightarrow> if \<exists>r' \<in> set rs. length r' \<noteq> length r then Inl ValueError else Inr rows)"

definition shape :: "real list list \<Rightarrow> nat \<times> nat" where
  "shape grid = (length grid, case grid of [] \<Rightarrow> 0 | r # _ \<Rightarrow> length r)"

definition np_array_grids :: "real list list list \<Rightarrow> error + real list list list" where
  "np_array_grids grids =
     (case grids of
        [] \<Rightarrow> Inr grids
      | g # gs \<Rightarrow> if \<exists>g' \<in> set gs. shape g' \<noteq> shape g then Inl ValueError else Inr grids)"

fun load_classifier_psfs ::
  "filesystem \<Rightarrow> string \<Rightarrow> int \<Rightarrow> int list \<Rightarrow> string list \<Rightarrow> real list list list
     \<Rightarrow> error + real list list list" where
  "load_classifier_psfs fs classifier_folder b photon_counts [] acc = Inr acc"
| "load_classifier_psfs fs classifier_folder b photon_counts (psf_name # rest) acc =
     (case load_classifier_photons fs classifier_folder psf_name b photon_counts [] of
        Inl e \<Rightarrow> Inl e
      | Inr classifier_across_photons \<Rightarrow>
          (case np_array_rows classifier_across_photons of
             Inl e \<Rightarrow> Inl e
           | Inr grid \<Rightarrow>
               load_classifier_psfs fs classifier_folder b photon_counts rest (acc @ [grid])))"

definition classifier_all_trials_across_psfs ::
  "filesystem \<Rightarrow> string \<Rightarrow> int \<Rightarrow> string list \<Rightarrow> int list \<Rightarrow> error + real list list list" where
  "classifier_all_trials_across_psfs fs classifier_folder b psfs photon_counts =
     (case load_classifier_psfs fs classifier_folder b photon_counts psfs [] of
        Inl e \<Rightarrow> Inl e
      | Inr grids \<Rightarrow> np_array_grids grids)"

subsection \<open>Sample file systems\<close>

text \<open>
  Two file systems to run the loaders on: one that holds the two estimate files of the
  single-lens PSF at 20 photons and nothing else, and one in which every path holds the
  same three trial values.
\<close>

definition sample_files :: filesystem where
  "sample_files =
     Map.empty
       (''cifar10_mi_estimates/gaussian_mi_estimate_20_photon_count_one_psf.npy'' \<mapsto> [1, 5],
        ''cifar10_mi_estimates/pixelcnn_mi_estimate_20_photon_count_one_psf.npy'' \<mapsto> [2, 5, 3])"

definition three_trial_files :: filesystem where
  "three_trial_files path = Some [1 / 2, 3 / 5, 7 / 10]"

text \<open>Files in which no minimum is the negative zero.\<close>

definition positive_zeros :: "string \<Rightarrow> zero_sign" where
  "positive_zeros path = PosZero"

section \<open>Properties of the outlier clipping\<close>

text \<open>The two reductions compute the greatest and the least element.\<close>

lemma np_max_eq: "xs \<noteq> [] \<Longrightarrow> np_max xs = Inr (Max (set xs))"
  by (cases xs) (simp_all add: Max.set_eq_fold [symmetric])
lemma np_min_eq: "xs \<noteq> [] \<Longrightarrow> np_min xs = Inr (Min (set xs))"
  by (cases xs) (simp_all add: Min.set_eq_fold [symmetric])

lemma np_min_Inr: "np_min xs = Inr m \<Longrightarrow> xs \<noteq> [] \<and> m = Min (set xs)"
  by (cases xs) (simp_all add: Min.set_eq_fold [symmetric])

lemma clip_map_bounds:
  fixes mn t :: real
  assumes ne: "values \<noteq> []" and mn: "mn = Min (set values)" and pos: "0 < mn" and t: "1 < t"
  defines "r \<equiv> map (\<lambda>x. if t * mn < x then mn else x) values"
  shows "Min (set r) = mn" and "Max (set r) \<le> t * mn"
proof -
  have "r \<noteq> []" using ne by (simp add: r_def)
  then have fin: "finite (set r)" and rne: "set r \<noteq> {}" by simp_all
  have mn_in: "mn \<in> set values" using ne mn by simp
  have le: "mn \<le> t * mn" using pos t by simp
  have "mn \<in> set r"
    using mn_in le unfolding r_def set_map by (force intro!: image_eqI [where x = mn])
  moreover have lower: "\<forall>y\<in>set r. mn \<le> y"
    using ne mn by (auto simp: r_def)
  ultimately show "Min (set r) = mn"
    using fin by (intro Min_eqI) auto
  have "\<forall>y\<in>set r. y \<le> t * mn" using le by (auto simp: r_def)
  then show "Max (set r) \<le> t * mn" using fin rne by simp
qed

text \<open>
  C1. For a trial sequence whose minimum is positive and a ratio threshold above 1, the
  clipping returns an array whose maximum divided by its minimum is at most the
  threshold. The notebook's threshold is 2.
\<close>

theorem outlier_clip_ratio_bound:
  assumes mn: "np_min values = Inr mn" and pos: "0 < mn" and t: "1 < ratio_threshold"
  shows "\<exists>r mx' mn'. outlier_clip min_zero ratio_threshold values = Inr r
            \<and> np_max r = Inr mx' \<and> np_min r = Inr mn' \<and> 0 < mn'
            \<and> np_div mx' mn' min_zero = Fin (mx' / mn') \<and> mx' / mn' \<le> ratio_threshold"
proof -
  from np_min_Inr [OF mn] have ne: "values \<noteq> []" and mn_eq: "mn = Min (set values)" by simp_all
  define mx where "mx = Max (set values)"
  have mx: "np_max values = Inr mx" using ne by (simp add: np_max_eq mx_def)
  show ?thesis
  proof (cases "ratio_threshold < mx / mn")
    case True
    define r where "r = map (\<lambda>x. if ratio_threshold * mn < x then mn else x) values"
    have res: "outlier_clip min_zero ratio_threshold values = Inr r"
      using True pos mx mn by (simp add: outlier_clip_def np_div_def r_def)
    have rne: "r \<noteq> []" using ne by (simp add: r_def)
    have rmin: "Min (set r) = mn" and rmax: "Max (set r) \<le> ratio_threshold * mn"
      using clip_map_bounds [OF ne mn_eq pos t] by (simp_all add: r_def)
    have "Max (set r) / mn \<le> ratio_threshold"
      using rmax pos by (simp add: pos_divide_le_eq)
    then show ?thesis
      using res rne rmin pos by (simp add: np_max_eq np_min_eq np_div_def)
  next
    case False
    have res: "outlier_clip min_zero ratio_threshold values = Inr values"
      using False pos mx mn by (simp add: outlier_clip_def np_div_def)
    show ?thesis
      using res mx mn pos False by (simp add: np_div_def)
  qed
qed

theorem outlier_clip_ratio_bound_witness:
  "np_min [1, 5, 3 / 2] = Inr 1 \<and> (0::real) < 1 \<and> (1::real) < 2
   \<and> outlier_clip PosZero 2 [1, 5, 3 / 2] = Inr [1, 1, 3 / 2]
   \<and> (\<exists>r mx' mn'. outlier_clip PosZero 2 [1, 5, 3 / 2] = Inr r
            \<and> np_max r = Inr mx' \<and> np_min r = Inr mn' \<and> 0 < mn'
            \<and> np_div mx' mn' PosZero = Fin (mx' / mn') \<and> mx' / mn' \<le> 2)"
proof -
  have h: "np_min [1, 5, 3 / 2] = Inr 1" by simp
  have c: "outlier_clip PosZero 2 [1, 5, 3 / 2] = Inr [1, 1, 3 / 2]"
    by (simp add: outlier_clip_def np_div_def)
  show ?thesis
    using h c outlier_clip_ratio_bound [OF h, of 2 PosZero] by simp
qed

text \<open>
  C2. With a minimum of \<^verbatim>\<open>0.0\<close> and a positive maximum the quotient is the positive
  infinity, the test succeeds and every positive value is replaced by the minimum: the
  array \<open>[0, 1]\<close> becomes \<open>[0, 0]\<close>.
\<close>

theorem outlier_clip_zero_min_counterexample:
  "np_min [0, 1] = Inr 0 \<and> np_div 1 0 PosZero = PosInf
   \<and> outlier_clip PosZero 2 [0, 1] = Inr [0, 0]
   \<and> outlier_clip PosZero 2 [0, 1] \<noteq> Inr [0, 1]"
  by (simp add: outlier_clip_def np_div_def)

text \<open>
  C2, as the code has it. The quotient is computed whatever the minimum is, and no
  exception comes of it. For a threshold of at least 1: with a negative minimum the array
  is returned unchanged; with a minimum that is the negative zero the quotient is the
  negative infinity or NaN and the array is returned unchanged; with a minimum that is
  the positive zero every value of the result is zero, which leaves the array unchanged
  only when it held nothing but zeros.
\<close>

theorem outlier_clip_nonpositive_min:
  assumes mn: "np_min values = Inr mn" and le: "mn \<le> 0" and t: "1 \<le> ratio_threshold"
  shows "outlier_clip min_zero ratio_threshold values =
           Inr (if mn = 0 \<and> min_zero = PosZero then map (\<lambda>_. 0) values else values)"
proof -
  from np_min_Inr [OF mn] have ne: "values \<noteq> []" and mn_eq: "mn = Min (set values)" by simp_all
  define mx where "mx = Max (set values)"
  have mx: "np_max values = Inr mx" using ne by (simp add: np_max_eq mx_def)
  have mn_mx: "mn \<le> mx" using ne by (simp add: mn_eq mx_def)
  have lower: "\<forall>x\<in>set values. mn \<le> x" using mn_eq by simp
  show ?thesis
  proof (cases "mn < 0")
    case True
    have "mx / mn \<le> 1"
      using True mn_mx by (simp add: neg_divide_le_eq)
    with t have "\<not> ratio_threshold < mx / mn" by linarith
    then have "\<not> np_gt (np_div mx mn min_zero) ratio_threshold"
      using True by (simp add: np_div_def)
    then show ?thesis using True mx mn by (simp add: outlier_clip_def)
  next
    case False
    then have z: "mn = 0" using le by simp
    have mx0: "0 \<le> mx" using mn_mx z by simp
    show ?thesis
    proof (cases min_zero)
      case NegZero
      have "\<not> np_gt (np_div mx mn min_zero) ratio_threshold"
        using z mx0 NegZero by (simp add: np_div_def)
      then show ?thesis using NegZero mx mn by (simp add: outlier_clip_def)
    next
      case PosZero
      have clip: "map (\<lambda>x. if ratio_threshold * mn < x then mn else x) values = map (\<lambda>_. 0) values"
        using lower z by (auto simp: not_less)
      show ?thesis
      proof (cases "0 < mx")
        case True
        then have "outlier_clip min_zero ratio_threshold values =
                     Inr (map (\<lambda>x. if ratio_threshold * mn < x then mn else x) values)"
          using z mx mn PosZero by (simp add: outlier_clip_def np_div_def)
        then show ?thesis using z clip PosZero by simp
      next
        case False
        then have "mx = 0" using mx0 by simp
        then have res: "outlier_clip min_zero ratio_threshold values = Inr values"
          using z mx mn by (simp add: outlier_clip_def np_div_def)
        have "\<forall>x\<in>set values. x \<le> mx" by (simp add: mx_def)
        with \<open>mx = 0\<close> lower z have "\<forall>x\<in>set values. x = 0" by force
        then have "map (\<lambda>_. 0) values = values" by (simp add: map_idI)
        then show ?thesis using res z PosZero by simp
      qed
    qed
  qed
qed

theorem outlier_clip_nonpositive_min_witness:
  "np_min [- 1, 3] = Inr (- 1) \<and> (- 1 :: real) \<le> 0 \<and> (1::real) \<le> 2
   \<and> outlier_clip PosZero 2 [- 1, 3] = Inr [- 1, 3]
   \<and> np_min [0, 1] = Inr 0 \<and> (0::real) \<le> 0
   \<and> outlier_clip NegZero 2 [0, 1] = Inr [0, 1]
   \<and> outlier_clip PosZero 2 [0, 1] = Inr [0, 0]"
proof -
  have h: "np_min [- 1, 3] = Inr (- 1)" by simp
  have l: "(- 1 :: real) \<le> 0" and t: "(1::real) \<le> 2" by simp_all
  have h0: "np_min [0, 1] = Inr 0" by simp
  have l0: "(0::real) \<le> 0" by simp
  show ?thesis
    using h h0 outlier_clip_nonpositive_min [OF h l t, of PosZero]
      outlier_clip_nonpositive_min [OF h0 l0 t, of NegZero]
      outlier_clip_nonpositive_min [OF h0 l0 t, of PosZero]
    by simp
qed

section \<open>Properties of the confidence interval\<close>

lemma np_percentile_total:
  assumes "v \<noteq> []" "0 \<le> q" "q \<le> 100"
  shows "\<exists>x. np_percentile v q = Inr x"
  using assms by (simp add: np_percentile_def Let_def)

lemma np_percentile_single:
  assumes "0 \<le> q" "q \<le> 100"
  shows "np_percentile [x] q = Inr x"
  using assms by (simp add: np_percentile_def Let_def)

lemma selected_Cons:
  "selected valid (pc # pcs) (x # xs) =
     (if pc \<in> set valid then x # selected valid pcs xs else selected valid pcs xs)"
  by (simp add: selected_def)

lemma selected_Nil [simp]: "selected valid [] xs = []"
  by (simp add: selected_def)

lemma np_mean_eq: "v \<noteq> [] \<Longrightarrow> np_mean v = Fin (sum_list v / real (length v))"
  by (cases v) simp_all

text \<open>
  The library call returns the interpolated order statistic of the values: whatever
  ascending arrangement \<open>s\<close> of the values is taken, the result is read off \<open>s\<close>.
\<close>

lemma np_percentile_sorted_perm:
  assumes ne: "v \<noteq> []" and q: "0 \<le> q" "q \<le> 100"
      and s: "sorted s" "mset s = mset v"
  shows "np_percentile v q = Inr (percentile_of_sorted s q)"
proof -
  have "sort v = s" using s by (simp add: properties_for_sort)
  moreover have "length s = length v" using s(2) by (metis size_mset)
  ultimately show ?thesis
    using ne q by (simp add: np_percentile_def percentile_of_sorted_def Let_def)
qed

text \<open>The percentiles at 0 and at 100 are the least and the greatest value.\<close>

lemma np_percentile_extremes:
  assumes ne: "v \<noteq> []"
  shows "np_percentile v 0 = Inr (Min (set v)) \<and> np_percentile v 100 = Inr (Max (set v))"
proof -
  define s where "s = sort v"
  have len: "length s = length v" and srt: "sorted s" and set: "set s = set v"
    by (simp_all add: s_def)
  have pos: "0 < length s" using ne len by simp
  have "s ! 0 \<in> set s" using pos by (rule nth_mem)
  moreover have "\<forall>y\<in>set s. s ! 0 \<le> y"
  proof
    fix y assume "y \<in> set s"
    then obtain i where i: "i < length s" "s ! i = y" by (auto simp: in_set_conv_nth)
    show "s ! 0 \<le> y" using sorted_nth_mono [OF srt, of 0 i] i by simp
  qed
  ultimately have lo: "s ! 0 = Min (set v)"
    unfolding set [symmetric] by (intro Min_eqI [symmetric]) auto
  have last_lt: "length v - 1 < length s" using pos len by simp
  have "s ! (length v - 1) \<in> set s" using last_lt by (rule nth_mem)
  moreover have "\<forall>y\<in>set s. y \<le> s ! (length v - 1)"
  proof
    fix y assume "y \<in> set s"
    then obtain i where i: "i < length s" "s ! i = y" by (auto simp: in_set_conv_nth)
    then have le: "i \<le> length v - 1" using len by simp
    have "s ! i \<le> s ! (length v - 1)" by (rule sorted_nth_mono [OF srt le last_lt])
    then show "y \<le> s ! (length v - 1)" using i by simp
  qed
  ultimately have hi: "s ! (length v - 1) = Max (set v)"
    unfolding set [symmetric] by (intro Max_eqI [symmetric]) auto
  have a: "np_percentile v 0 = Inr (s ! 0)"
    using ne by (simp add: np_percentile_def Let_def s_def)
  have b: "np_percentile v 100 = Inr (s ! (length v - 1))"
    using ne by (simp add: np_percentile_def Let_def s_def)
  show ?thesis using a b lo hi by simp
qed

text \<open>Values that are not in ascending order: the median of 3, 1, 2 is 2.\<close>

lemma np_percentile_unsorted_samples:
  "np_percentile [3, 1, 2] 50 = Inr 2
   \<and> np_percentile [3, 1, 2, 7] 25 = Inr (7 / 4)
   \<and> np_percentile [8, 0, 4, - 4] 75 = Inr 5"
  by (simp add: np_percentile_def Let_def)

lemma selected_subset: "set (selected valid pcs xs) \<subseteq> set xs"
  by (auto simp: selected_def dest: set_zip_rightD)

lemma marker_for_psf_known:
  assumes "psf_name \<in> set [''one'', ''four'', ''diffuser'', ''uc'', ''two'']"
  shows "\<exists>marker. marker_for_psf psf_name = Inr marker"
  using assms by (auto simp: marker_for_psf_def)

lemma confidence_interval_loop_result:
  assumes cl: "0 < cl" "cl < 1"
      and lt: "length trials = i + length pcs"
      and lm: "length mi_row = i + length pcs"
      and ne: "\<forall>v\<in>set trials. v \<noteq> []"
      and psf: "psf_name \<in> set [''one'', ''four'', ''diffuser'', ''uc'', ''two'']"
  shows "\<exists>lo hi.
           confidence_interval_loop cl valid psf_name mi_row trials i pcs st =
             Inr (st\<lparr>mi_means_across_photons :=
                       mi_means_across_photons st @ selected valid pcs (drop i mi_row),
                     classifier_means_across_photons :=
                       classifier_means_across_photons st
                         @ map (\<lambda>v. Fin (sum_list v / real (length v)))
                             (selected valid pcs (drop i trials)),
                     classifier_lower_across_photons :=
                       classifier_lower_across_photons st @ lo,
                     classifier_upper_across_photons :=
                       classifier_upper_across_photons st @ hi\<rparr>)
           \<and> map Inr lo = map (\<lambda>v. np_percentile v (100 - 100 * (1 + cl) / 2))
                             (selected valid pcs (drop i trials))
           \<and> map Inr hi = map (\<lambda>v. np_percentile v (100 * (1 + cl) / 2))
                             (selected valid pcs (drop i trials))"
  using lt lm
proof (induction pcs arbitrary: i st)
  case Nil
  show ?case by (intro exI [where x = "[]"]) simp
next
  case (Cons pc pcs)
  have it: "i < length trials" and im: "i < length mi_row" using Cons.prems by simp_all
  have dt: "drop i trials = trials ! i # drop (Suc i) trials"
    using it by (simp add: Cons_nth_drop_Suc)
  have dm: "drop i mi_row = mi_row ! i # drop (Suc i) mi_row"
    using im by (simp add: Cons_nth_drop_Suc)
  have vne: "trials ! i \<noteq> []" using ne it by simp
  have lens: "length trials = Suc i + length pcs" "length mi_row = Suc i + length pcs"
    using Cons.prems by simp_all
  show ?case
  proof (cases "pc \<in> set valid")
    case False
    then have step: "confidence_interval_step cl valid psf_name mi_row trials i pc st = Inr st"
      by (simp add: confidence_interval_step_def)
    from Cons.IH [OF lens, of st] obtain lo hi where
      "confidence_interval_loop cl valid psf_name mi_row trials (Suc i) pcs st =
             Inr (st\<lparr>mi_means_across_photons :=
                       mi_means_across_photons st @ selected valid pcs (drop (Suc i) mi_row),
                     classifier_means_across_photons :=
                       classifier_means_across_photons st
                         @ map (\<lambda>v. Fin (sum_list v / real (length v)))
                             (selected valid pcs (drop (Suc i) trials)),
                     classifier_lower_across_photons :=
                       classifier_lower_across_photons st @ lo,
                     classifier_upper_across_photons :=
                       classifier_upper_across_photons st @ hi\<rparr>)"
      "map Inr lo = map (\<lambda>v. np_percentile v (100 - 100 * (1 + cl) / 2))
                             (selected valid pcs (drop (Suc i) trials))"
      "map Inr hi = map (\<lambda>v. np_percentile v (100 * (1 + cl) / 2))
                             (selected valid pcs (drop (Suc i) trials))"
      by blast
    then show ?thesis
      using False step
      by (intro exI [where x = lo] exI [where x = hi]) (simp add: dt dm selected_Cons)
  next
    case True
    obtain l where l: "np_percentile (trials ! i) (100 - 100 * (1 + cl) / 2) = Inr l"
      using np_percentile_total [OF vne, of "100 - 100 * (1 + cl) / 2"] cl by auto
    obtain h where h: "np_percentile (trials ! i) (100 * (1 + cl) / 2) = Inr h"
      using np_percentile_total [OF vne, of "100 * (1 + cl) / 2"] cl by auto
    define st' where "st' = st\<lparr>mi_means_across_photons := mi_means_across_photons st @ [mi_row ! i],
        classifier_means_across_photons := classifier_means_across_photons st
            @ [Fin (sum_list (trials ! i) / real (length (trials ! i)))],
        classifier_lower_across_photons := classifier_lower_across_photons st @ [l],
        classifier_upper_across_photons := classifier_upper_across_photons st @ [h]\<rparr>"
    obtain marker where marker: "marker_for_psf psf_name = Inr marker"
      using marker_for_psf_known [OF psf] by blast
    have step: "confidence_interval_step cl valid psf_name mi_row trials i pc st = Inr st'"
      using True it im l h vne marker
      by (simp add: confidence_interval_step_def index_def Let_def np_mean_eq st'_def)
    from Cons.IH [OF lens, of st'] obtain lo hi where
      "confidence_interval_loop cl valid psf_name mi_row trials (Suc i) pcs st' =
             Inr (st'\<lparr>mi_means_across_photons :=
                       mi_means_across_photons st' @ selected valid pcs (drop (Suc i) mi_row),
                     classifier_means_across_photons :=
                       classifier_means_across_photons st'
                         @ map (\<lambda>v. Fin (sum_list v / real (length v)))
                             (selected valid pcs (drop (Suc i) trials)),
                     classifier_lower_across_photons :=
                       classifier_lower_across_photons st' @ lo,
                     classifier_upper_across_photons :=
                       classifier_upper_across_photons st' @ hi\<rparr>)"
      "map Inr lo = map (\<lambda>v. np_percentile v (100 - 100 * (1 + cl) / 2))
                             (selected valid pcs (drop (Suc i) trials))"
      "map Inr hi = map (\<lambda>v. np_percentile v (100 * (1 + cl) / 2))
                             (selected valid pcs (drop (Suc i) trials))"
      by blast
    then show ?thesis
      using True step l h
      by (intro exI [where x = "l # lo"] exI [where x = "h # hi"])
         (simp add: dt dm selected_Cons st'_def)
  qed
qed

text \<open>
  C3. For a confidence level strictly between 0 and 1, a PSF name that has a marker and
  non-empty trial sequences, one per photon count, the loop succeeds and returns, for each
  kept condition in order, the arithmetic mean of the trials and, as bounds, their
  percentiles at
  \<open>100 - 100 * (1 + confidence_level) / 2\<close> and \<open>100 * (1 + confidence_level) / 2\<close>:
  the values read at these percents off the trials put in ascending order, linearly
  between neighbouring order statistics. At the level 0.9 these are the 5th and the 95th
  percentile, and for a single trial the mean and both bounds are that trial's value.
\<close>

theorem confidence_interval_percentile_bounds:
  assumes cl: "0 < cl" "cl < 1"
      and lt: "length trials = length pcs"
      and lm: "length mi_row = length pcs"
      and ne: "\<forall>v\<in>set trials. v \<noteq> []"
      and psf: "psf_name \<in> set [''one'', ''four'', ''diffuser'', ''uc'', ''two'']"
  shows "\<exists>st. confidence_interval cl valid psf_name mi_row trials pcs = Inr st
           \<and> mi_means_across_photons st = selected valid pcs mi_row
           \<and> classifier_means_across_photons st =
               map (\<lambda>v. Fin (sum_list v / real (length v))) (selected valid pcs trials)
           \<and> map Inr (classifier_lower_across_photons st) =
               map (\<lambda>v. np_percentile v (100 - 100 * (1 + cl) / 2)) (selected valid pcs trials)
           \<and> map Inr (classifier_upper_across_photons st) =
               map (\<lambda>v. np_percentile v (100 * (1 + cl) / 2)) (selected valid pcs trials)
           \<and> length (classifier_lower_across_photons st) = length (selected valid pcs trials)
           \<and> length (classifier_upper_across_photons st) = length (selected valid pcs trials)
           \<and> (\<forall>i s. i < length (selected valid pcs trials) \<and> sorted s
                      \<and> mset s = mset (selected valid pcs trials ! i) \<longrightarrow>
                  classifier_lower_across_photons st ! i =
                    percentile_of_sorted s (100 - 100 * (1 + cl) / 2)
                  \<and> classifier_upper_across_photons st ! i =
                      percentile_of_sorted s (100 * (1 + cl) / 2))
           \<and> (cl = 9 / 10 \<longrightarrow> 100 - 100 * (1 + cl) / 2 = 5 \<and> 100 * (1 + cl) / 2 = 95)
           \<and> (\<forall>x. np_mean [x] = Fin x
                  \<and> np_percentile [x] (100 - 100 * (1 + cl) / 2) = Inr x
                  \<and> np_percentile [x] (100 * (1 + cl) / 2) = Inr x)"
proof -
  let ?sel = "selected valid pcs trials"
  let ?qlo = "100 - 100 * (1 + cl) / 2" and ?qhi = "100 * (1 + cl) / 2"
  from confidence_interval_loop_result [OF cl, where i = 0 and pcs = pcs and trials = trials
      and mi_row = mi_row and valid = valid and psf_name = psf_name
      and st = empty_interval_state]
  obtain lo hi where
    res: "confidence_interval_loop cl valid psf_name mi_row trials 0 pcs empty_interval_state =
            Inr (empty_interval_state\<lparr>mi_means_across_photons :=
                       mi_means_across_photons empty_interval_state @ selected valid pcs (drop 0 mi_row),
                     classifier_means_across_photons :=
                       classifier_means_across_photons empty_interval_state
                         @ map (\<lambda>v. Fin (sum_list v / real (length v)))
                             (selected valid pcs (drop 0 trials)),
                     classifier_lower_across_photons :=
                       classifier_lower_across_photons empty_interval_state @ lo,
                     classifier_upper_across_photons :=
                       classifier_upper_across_photons empty_interval_state @ hi\<rparr>)"
    and lo: "map Inr lo = map (\<lambda>v. np_percentile v ?qlo) (selected valid pcs (drop 0 trials))"
    and hi: "map Inr hi = map (\<lambda>v. np_percentile v ?qhi) (selected valid pcs (drop 0 trials))"
    using lt lm ne psf by auto
  have lo': "map Inr lo = map (\<lambda>v. np_percentile v ?qlo) ?sel"
    and hi': "map Inr hi = map (\<lambda>v. np_percentile v ?qhi) ?sel"
    using lo hi by simp_all
  have llen: "length lo = length ?sel" using lo' by (metis length_map)
  have hlen: "length hi = length ?sel" using hi' by (metis length_map)
  have qs: "0 \<le> ?qlo" "?qlo \<le> 100" "0 \<le> ?qhi" "?qhi \<le> 100" using cl by simp_all
  have order: "lo ! i = percentile_of_sorted s ?qlo \<and> hi ! i = percentile_of_sorted s ?qhi"
    if i: "i < length ?sel" and s: "sorted s" "mset s = mset (?sel ! i)" for i s
  proof -
    have "?sel ! i \<in> set ?sel" using i by (rule nth_mem)
    then have "?sel ! i \<in> set trials" using selected_subset [of valid pcs trials] by blast
    then have vne: "?sel ! i \<noteq> []" using ne by blast
    have "Inr (lo ! i) = map Inr lo ! i" using i llen by simp
    also have "\<dots> = np_percentile (?sel ! i) ?qlo" using i by (simp add: lo')
    also have "\<dots> = Inr (percentile_of_sorted s ?qlo)"
      by (rule np_percentile_sorted_perm [OF vne qs(1,2) s])
    finally have a: "lo ! i = percentile_of_sorted s ?qlo" by simp
    have "Inr (hi ! i) = map Inr hi ! i" using i hlen by simp
    also have "\<dots> = np_percentile (?sel ! i) ?qhi" using i by (simp add: hi')
    also have "\<dots> = Inr (percentile_of_sorted s ?qhi)"
      by (rule np_percentile_sorted_perm [OF vne qs(3,4) s])
    finally have b: "hi ! i = percentile_of_sorted s ?qhi" by simp
    show ?thesis using a b by simp
  qed
  have single: "\<forall>x. np_mean [x] = Fin x
                  \<and> np_percentile [x] ?qlo = Inr x \<and> np_percentile [x] ?qhi = Inr x"
    using cl by (simp add: np_percentile_single)
  have q: "cl = 9 / 10 \<longrightarrow> ?qlo = 5 \<and> ?qhi = 95"
    by simp
  define st where "st = empty_interval_state\<lparr>mi_means_across_photons := selected valid pcs mi_row,
      classifier_means_across_photons := map (\<lambda>v. Fin (sum_list v / real (length v))) ?sel,
      classifier_lower_across_photons := lo, classifier_upper_across_photons := hi\<rparr>"
  have r: "confidence_interval cl valid psf_name mi_row trials pcs = Inr st"
    using res by (simp add: confidence_interval_def empty_interval_state_def st_def)
  have f: "mi_means_across_photons st = selected valid pcs mi_row"
    "classifier_means_across_photons st = map (\<lambda>v. Fin (sum_list v / real (length v))) ?sel"
    "classifier_lower_across_photons st = lo" "classifier_upper_across_photons st = hi"
    by (simp_all add: st_def)
  have g1: "mi_means_across_photons st = selected valid pcs mi_row" by (rule f(1))
  have g2: "classifier_means_across_photons st =
              map (\<lambda>v. Fin (sum_list v / real (length v))) ?sel" by (rule f(2))
  have g3: "map Inr (classifier_lower_across_photons st) = map (\<lambda>v. np_percentile v ?qlo) ?sel"
    unfolding f(3) by (rule lo')
  have g4: "map Inr (classifier_upper_across_photons st) = map (\<lambda>v. np_percentile v ?qhi) ?sel"
    unfolding f(4) by (rule hi')
  have g5: "length (classifier_lower_across_photons st) = length ?sel"
    unfolding f(3) by (rule llen)
  have g6: "length (classifier_upper_across_photons st) = length ?sel"
    unfolding f(4) by (rule hlen)
  have g7: "\<forall>i s. i < length ?sel \<and> sorted s \<and> mset s = mset (?sel ! i) \<longrightarrow>
            classifier_lower_across_photons st ! i = percentile_of_sorted s ?qlo
            \<and> classifier_upper_across_photons st ! i = percentile_of_sorted s ?qhi"
    unfolding f(3) f(4) using order by blast
  from r g1 g2 g3 g4 g5 g6 g7 q single show ?thesis by blast
qed

theorem confidence_interval_percentile_bounds_witness:
  "(0::real) < 9 / 10 \<and> (9::real) / 10 < 1
   \<and> length [[7 / 10], [10, 1, 4, 2, 3], [1 / 10, 1 / 5 :: real]] = length [20, 40, 60 :: int]
   \<and> length [3 / 2, 5 / 2, 7 / 2 :: real] = length [20, 40, 60 :: int]
   \<and> [] \<notin> set [[7 / 10], [10, 1, 4, 2, 3], [1 / 10, 1 / 5 :: real]]
   \<and> ''four'' \<in> set [''one'', ''four'', ''diffuser'', ''uc'', ''two'']
   \<and> confidence_interval (9 / 10) [20, 40] ''four'' [3 / 2, 5 / 2, 7 / 2]
        [[7 / 10], [10, 1, 4, 2, 3], [1 / 10, 1 / 5]] [20, 40, 60] =
       Inr \<lparr>mi_means_across_photons = [3 / 2, 5 / 2],
            classifier_means_across_photons = [Fin (7 / 10), Fin 4],
            classifier_lower_across_photons = [7 / 10, 6 / 5],
            classifier_upper_across_photons = [7 / 10, 44 / 5]\<rparr>
   \<and> sorted [1, 2, 3, 4, 10 :: real] \<and> mset [1, 2, 3, 4, 10 :: real] = mset [10, 1, 4, 2, 3]
   \<and> percentile_of_sorted [1, 2, 3, 4, 10] 5 = 6 / 5
   \<and> percentile_of_sorted [1, 2, 3, 4, 10] 95 = 44 / 5"
proof -
  let ?trials = "[[7 / 10], [10, 1, 4, 2, 3], [1 / 10, 1 / 5 :: real]]"
  have c1: "(0::real) < 9 / 10" and c2: "(9::real) / 10 < 1" by simp_all
  have lt: "length ?trials = length [20, 40, 60 :: int]" by simp
  have lm: "length [3 / 2, 5 / 2, 7 / 2 :: real] = length [20, 40, 60 :: int]" by simp
  have ne: "\<forall>v\<in>set ?trials. v \<noteq> []" by simp
  have ps: "''four'' \<in> set [''one'', ''four'', ''diffuser'', ''uc'', ''two'']" by simp
  have srt: "sorted [1, 2, 3, 4, 10 :: real]" by simp
  have perm: "mset [1, 2, 3, 4, 10 :: real] = mset [10, 1, 4, 2, 3]" by simp
  have srt1: "sorted [7 / 10 :: real]" and perm1: "mset [7 / 10 :: real] = mset [7 / 10]"
    by simp_all
  have p5: "percentile_of_sorted [1, 2, 3, 4, 10] 5 = 6 / 5"
    by (simp add: percentile_of_sorted_def Let_def)
  have p95: "percentile_of_sorted [1, 2, 3, 4, 10] 95 = 44 / 5"
    by (simp add: percentile_of_sorted_def Let_def)
  have s5: "percentile_of_sorted [7 / 10] 5 = 7 / 10"
    by (simp add: percentile_of_sorted_def Let_def)
  have s95: "percentile_of_sorted [7 / 10] 95 = 7 / 10"
    by (simp add: percentile_of_sorted_def Let_def)
  have sel: "selected [20, 40] [20, 40, 60] ?trials = [[7 / 10], [10, 1, 4, 2, 3]]"
    by (simp add: selected_def)
  have qlo: "100 - 100 * (1 + 9 / 10) / 2 = (5::real)" and qhi: "100 * (1 + 9 / 10) / 2 = (95::real)"
    by simp_all
  from confidence_interval_percentile_bounds [OF c1 c2 lt lm ne ps, of "[20, 40]"]
  obtain st where
    r: "confidence_interval (9 / 10) [20, 40] ''four'' [3 / 2, 5 / 2, 7 / 2] ?trials
          [20, 40, 60] = Inr st"
    and m: "mi_means_across_photons st = selected [20, 40] [20, 40, 60] [3 / 2, 5 / 2, 7 / 2]"
    and c: "classifier_means_across_photons st =
              map (\<lambda>v. Fin (sum_list v / real (length v))) (selected [20, 40] [20, 40, 60] ?trials)"
    and ll: "length (classifier_lower_across_photons st) =
               length (selected [20, 40] [20, 40, 60] ?trials)"
    and ul: "length (classifier_upper_across_photons st) =
               length (selected [20, 40] [20, 40, 60] ?trials)"
    and os: "\<forall>i s. i < length (selected [20, 40] [20, 40, 60] ?trials) \<and> sorted s
                      \<and> mset s = mset (selected [20, 40] [20, 40, 60] ?trials ! i) \<longrightarrow>
                  classifier_lower_across_photons st ! i =
                    percentile_of_sorted s (100 - 100 * (1 + 9 / 10) / 2)
                  \<and> classifier_upper_across_photons st ! i =
                      percentile_of_sorted s (100 * (1 + 9 / 10) / 2)"
    by blast
  have o0: "classifier_lower_across_photons st ! 0 = 7 / 10
            \<and> classifier_upper_across_photons st ! 0 = 7 / 10"
    using os [rule_format, of 0 "[7 / 10]"] srt1 by (simp add: sel qlo qhi s5 s95)
  have o1: "classifier_lower_across_photons st ! 1 = 6 / 5
            \<and> classifier_upper_across_photons st ! 1 = 44 / 5"
    using os [rule_format, of 1 "[1, 2, 3, 4, 10]"] srt perm by (simp add: sel qlo qhi p5 p95)
  have l': "classifier_lower_across_photons st = [7 / 10, 6 / 5]"
    using ll o0 o1 by (intro nth_equalityI) (auto simp: sel less_Suc_eq numeral_2_eq_2)
  have u': "classifier_upper_across_photons st = [7 / 10, 44 / 5]"
    using ul o0 o1 by (intro nth_equalityI) (auto simp: sel less_Suc_eq numeral_2_eq_2)
  have m': "mi_means_across_photons st = [3 / 2, 5 / 2]"
    using m by (simp add: selected_def)
  have c': "classifier_means_across_photons st = [Fin (7 / 10), Fin 4]"
    using c by (simp add: sel)
  have "st = \<lparr>mi_means_across_photons = [3 / 2, 5 / 2],
            classifier_means_across_photons = [Fin (7 / 10), Fin 4],
            classifier_lower_across_photons = [7 / 10, 6 / 5],
            classifier_upper_across_photons = [7 / 10, 44 / 5]\<rparr>"
    using m' c' l' u' by simp
  then show ?thesis using r srt perm p5 p95 by simp
qed

text \<open>
  The uniform sample \<open>1, \<dots>, 100\<close>: its 5th and 95th percentiles are 5.95 and 95.05.
\<close>

lemma np_percentile_uniform_sample: "np_percentile (map real_of_int [1..100]) 5 = Inr (119 / 20)
   \<and> np_percentile (map real_of_int [1..100]) 95 = Inr (1901 / 20)"
  by (simp add: np_percentile_def Let_def upto.simps)

section \<open>Properties of the minimum over the trials\<close>

lemma row_min_eq: "v \<noteq> [] \<Longrightarrow> fold min (tl v) (hd v) = Min (set v)"
  by (cases v) (simp_all add: Min.set_eq_fold [symmetric])

text \<open>
  C4. For a grid with at least one condition whose trial sequences all have the same
  positive length, the aggregation returns, per condition, the least of that condition's
  trials; on \<open>[[5, 3, 9], [2, 8, 1]]\<close> it returns \<open>[3, 1]\<close>.
\<close>

theorem minimum_aggregate_rectangular:
  assumes ne: "rows \<noteq> []" and n: "0 < n" and rect: "\<forall>r\<in>set rows. length r = n"
  shows "minimum_aggregate rows = Inr (map (\<lambda>r. Min (set r)) rows)"
proof -
  obtain r rs where rows: "rows = r # rs" using ne by (cases rows) auto
  have same: "\<not> (\<exists>r'\<in>set rs. length r' \<noteq> length r)" using rect rows by simp
  have rne: "r \<noteq> []" using rect rows n by auto
  have all_ne: "\<forall>v\<in>set rows. v \<noteq> []" using rect n by auto
  have "map (\<lambda>v. fold min (tl v) (hd v)) rows = map (\<lambda>r. Min (set r)) rows"
    using all_ne by (simp add: row_min_eq)
  then show ?thesis
    using same rne unfolding minimum_aggregate_def rows by simp
qed

theorem minimum_aggregate_rectangular_witness:
  "[[5, 3, 9], [2, 8, 1 :: real]] \<noteq> [] \<and> (0::nat) < 3
   \<and> map length [[5, 3, 9], [2, 8, 1 :: real]] = [3, 3]
   \<and> minimum_aggregate [[5, 3, 9], [2, 8, 1]] = Inr [3, 1]"
proof -
  have a: "[[5, 3, 9], [2, 8, 1 :: real]] \<noteq> []" and b: "(0::nat) < 3" by simp_all
  have c: "\<forall>r\<in>set [[5, 3, 9], [2, 8, 1 :: real]]. length r = 3" by simp
  show ?thesis
    using a b c minimum_aggregate_rectangular [OF a b c] by simp
qed

section \<open>Properties of the loaders\<close>






lemma str_int_20: "str_int 20 = ''20''" by code_simp




section \<open>Properties of the artifact paths\<close>

text \<open>
  C6. The estimate path follows the specification's template with the dataset label
  \<open>cifar10\<close>, where the classifier path does not: it follows the template with the
  label \<open>cifar\<close>, where the estimate path does not. No one label serves both.
\<close>

theorem dataset_label_counterexample:
  "gaussian_mi_path ''results/'' 20 ''one'' =
     spec_mi_path ''results'' ''cifar10'' ''gaussian'' 20 ''one''
   \<and> classifier_path ''results/'' 20 ''one'' 10 ''cnn'' \<noteq>
       spec_classifier_path ''results'' ''cifar10'' 20 ''one'' 10 ''cnn''
   \<and> classifier_path ''results/'' 20 ''one'' 10 ''cnn'' =
       spec_classifier_path ''results'' ''cifar'' 20 ''one'' 10 ''cnn''
   \<and> gaussian_mi_path ''results/'' 20 ''one'' \<noteq>
       spec_mi_path ''results'' ''cifar'' ''gaussian'' 20 ''one''"
  by (simp add: gaussian_mi_path_def spec_mi_path_def classifier_path_def
        spec_classifier_path_def)

text \<open>
  C6, as the code has it. The folder variable is prefixed with no separator. With a folder
  that ends in a slash, the estimate paths are the specification's template with the
  dataset label \<open>cifar10\<close> and the estimator \<open>gaussian\<close> or \<open>pixelcnn\<close>, and
  the classifier path is the specification's template with the dataset label
  \<open>cifar\<close>. With the notebook's empty folder the paths are relative: the templates
  without their leading slash.
\<close>

theorem artifact_paths_follow_templates:
  "gaussian_mi_path (folder @ ''/'') photon_count psf_name =
     spec_mi_path folder ''cifar10'' ''gaussian'' photon_count psf_name
   \<and> pixelcnn_mi_path (folder @ ''/'') photon_count psf_name =
       spec_mi_path folder ''cifar10'' ''pixelcnn'' photon_count psf_name
   \<and> classifier_path (folder @ ''/'') photon_count psf_name b model =
       spec_classifier_path folder ''cifar'' photon_count psf_name b model
   \<and> ''/'' @ gaussian_mi_path [] photon_count psf_name =
       spec_mi_path [] ''cifar10'' ''gaussian'' photon_count psf_name
   \<and> ''/'' @ pixelcnn_mi_path [] photon_count psf_name =
       spec_mi_path [] ''cifar10'' ''pixelcnn'' photon_count psf_name
   \<and> ''/'' @ classifier_path [] photon_count psf_name b model =
       spec_classifier_path [] ''cifar'' photon_count psf_name b model"
  by (simp add: gaussian_mi_path_def pixelcnn_mi_path_def spec_mi_path_def classifier_path_def
        spec_classifier_path_def)

section \<open>Properties of the classifier loader\<close>

lemma load_classifier_photons_all:
  assumes "\<forall>pc\<in>set pcs. \<exists>a. fs (classifier_path folder pc psf b ''cnn'') = Some a"
  shows "load_classifier_photons fs folder psf b pcs acc =
           Inr (acc @ map (\<lambda>pc. the (fs (classifier_path folder pc psf b ''cnn''))) pcs)"
  using assms
proof (induction pcs arbitrary: acc)
  case Nil
  show ?case by simp
next
  case (Cons pc pcs)
  then obtain a where a: "fs (classifier_path folder pc psf b ''cnn'') = Some a" by auto
  have rest: "\<forall>pc\<in>set pcs. \<exists>a. fs (classifier_path folder pc psf b ''cnn'') = Some a"
    using Cons.prems by simp
  show ?case
    using Cons.IH [OF rest] a by (simp add: np_load_def)
qed

lemma np_array_rows_same_length:
  assumes "\<forall>r\<in>set rows. length r = n"
  shows "np_array_rows rows = Inr rows"
  using assms by (cases rows) (auto simp: np_array_rows_def)

lemma np_array_grids_same_shape:
  assumes "\<forall>g\<in>set grids. shape g = s"
  shows "np_array_grids grids = Inr grids"
  using assms by (cases grids) (auto simp: np_array_grids_def)

lemma load_classifier_psfs_all:
  assumes "\<forall>psf\<in>set psfs. \<forall>pc\<in>set pcs.
             \<exists>a. fs (classifier_path folder pc psf b ''cnn'') = Some a \<and> length a = n"
  shows "load_classifier_psfs fs folder b pcs psfs acc =
           Inr (acc @ map (\<lambda>psf. map (\<lambda>pc. the (fs (classifier_path folder pc psf b ''cnn''))) pcs)
                        psfs)"
  using assms
proof (induction psfs arbitrary: acc)
  case Nil
  show ?case by simp
next
  case (Cons psf psfs)
  have ex: "\<forall>pc\<in>set pcs. \<exists>a. fs (classifier_path folder pc psf b ''cnn'') = Some a"
    using Cons.prems by auto
  have len: "\<forall>r\<in>set (map (\<lambda>pc. the (fs (classifier_path folder pc psf b ''cnn''))) pcs).
               length r = n"
    using Cons.prems by auto
  have rest: "\<forall>psf\<in>set psfs. \<forall>pc\<in>set pcs.
             \<exists>a. fs (classifier_path folder pc psf b ''cnn'') = Some a \<and> length a = n"
    using Cons.prems by simp
  show ?case
    using Cons.IH [OF rest] load_classifier_photons_all [OF ex, of "[]"]
      np_array_rows_same_length [OF len]
    by simp
qed

text \<open>
  C7, as the code has it. The load is given no expected trial count and checks none: when
  every file exists and all hold arrays of one length, whatever that length is, each load
  returns the stored array and the cell returns the grid of the stored arrays.
\<close>

theorem classifier_load_checks_no_length:
  assumes "\<forall>psf\<in>set psfs. \<forall>pc\<in>set pcs.
             \<exists>a. fs (classifier_path folder pc psf b ''cnn'') = Some a \<and> length a = n"
  shows "classifier_all_trials_across_psfs fs folder b psfs pcs =
           Inr (map (\<lambda>psf. map (\<lambda>pc. the (fs (classifier_path folder pc psf b ''cnn''))) pcs)
                  psfs)
         \<and> (\<forall>psf\<in>set psfs. \<forall>pc\<in>set pcs.
               np_load fs (classifier_path folder pc psf b ''cnn'') =
                 Inr (the (fs (classifier_path folder pc psf b ''cnn''))))"
proof -
  let ?grid = "\<lambda>psf. map (\<lambda>pc. the (fs (classifier_path folder pc psf b ''cnn''))) pcs"
  have sh: "\<forall>g\<in>set (map ?grid psfs). shape g = (length pcs, if pcs = [] then 0 else n)"
  proof
    fix g assume "g \<in> set (map ?grid psfs)"
    then obtain psf where psf: "psf \<in> set psfs" and g: "g = ?grid psf" by auto
    show "shape g = (length pcs, if pcs = [] then 0 else n)"
    proof (cases pcs)
      case Nil
      then show ?thesis by (simp add: g shape_def)
    next
      case (Cons pc rest)
      then have "pc \<in> set pcs" by simp
      with assms psf obtain a where
        "fs (classifier_path folder pc psf b ''cnn'') = Some a" "length a = n" by blast
      then show ?thesis using Cons by (simp add: g shape_def)
    qed
  qed
  have loads: "\<forall>psf\<in>set psfs. \<forall>pc\<in>set pcs.
               np_load fs (classifier_path folder pc psf b ''cnn'') =
                 Inr (the (fs (classifier_path folder pc psf b ''cnn'')))"
  proof (intro ballI)
    fix psf pc assume "psf \<in> set psfs" "pc \<in> set pcs"
    with assms obtain a where "fs (classifier_path folder pc psf b ''cnn'') = Some a" by blast
    then show "np_load fs (classifier_path folder pc psf b ''cnn'') =
                 Inr (the (fs (classifier_path folder pc psf b ''cnn'')))"
      by (simp add: np_load_def)
  qed
  show ?thesis
    using load_classifier_psfs_all [OF assms, of "[]"] np_array_grids_same_shape [OF sh] loads
    by (simp add: classifier_all_trials_across_psfs_def)
qed

theorem classifier_load_checks_no_length_witness:
  "three_trial_files (classifier_path [] 40 ''four'' 10 ''cnn'') = Some [1 / 2, 3 / 5, 7 / 10]
   \<and> length [1 / 2, 3 / 5, 7 / 10 :: real] = 3
   \<and> classifier_all_trials_across_psfs three_trial_files [] 10 [''one'', ''four''] [20, 40] =
       Inr [[[1 / 2, 3 / 5, 7 / 10], [1 / 2, 3 / 5, 7 / 10]],
            [[1 / 2, 3 / 5, 7 / 10], [1 / 2, 3 / 5, 7 / 10]]]"
proof -
  have h: "\<forall>psf\<in>set [''one'', ''four'']. \<forall>pc\<in>set [20, 40].
       \<exists>a. three_trial_files (classifier_path [] pc psf 10 ''cnn'') = Some a \<and> length a = 3"
    by (simp add: three_trial_files_def)
  have r: "classifier_all_trials_across_psfs three_trial_files [] 10 [''one'', ''four''] [20, 40] =
           Inr (map (\<lambda>psf. map (\<lambda>pc. the (three_trial_files (classifier_path [] pc psf 10 ''cnn'')))
                              [20, 40])
                  [''one'', ''four''])"
    using classifier_load_checks_no_length [OF h] by (rule conjunct1)
  have v: "the (three_trial_files path) = [1 / 2, 3 / 5, 7 / 10]" for path
    by (simp add: three_trial_files_def)
  have f: "three_trial_files (classifier_path [] 40 ''four'' 10 ''cnn'') = Some [1 / 2, 3 / 5, 7 / 10]"
    by (simp add: three_trial_files_def)
  show ?thesis
    using f r by (simp add: v)
qed

text \<open>
  C7. The cell's comment expects 10 trials per file (and the seed list has 9 values).
  With 3 trials in every file the load returns the three values and the cell returns a
  grid of shape 3 by 9 by 3; nothing is raised.
\<close>

theorem unexpected_trial_count_counterexample:
  "np_load three_trial_files (classifier_path [] 20 ''one'' bias ''cnn'') =
     Inr [1 / 2, 3 / 5, 7 / 10]
   \<and> classifier_all_trials_across_psfs three_trial_files [] bias psf_names
        mean_photon_count_list =
       Inr (replicate 3 (replicate 9 [1 / 2, 3 / 5, 7 / 10]))"
  by (simp add: classifier_all_trials_across_psfs_def psf_names_def mean_photon_count_list_def
        np_load_def np_array_rows_def np_array_grids_def shape_def three_trial_files_def
        eval_nat_numeral)

section \<open>Properties on empty trial lists\<close>

lemma minimum_aggregate_empty_row:
  assumes "[] \<in> set rows"
  shows "minimum_aggregate rows = Inl ValueError"
proof (cases rows)
  case Nil
  with assms show ?thesis by simp
next
  case (Cons r rs)
  show ?thesis
  proof (cases "\<exists>r'\<in>set rs. length r' \<noteq> length r")
    case True
    then show ?thesis by (simp add: minimum_aggregate_def Cons)
  next
    case False
    then have "\<forall>r'\<in>set rows. length r' = length r" using Cons by auto
    with assms have "r = []" by fastforce
    then show ?thesis using False by (simp add: minimum_aggregate_def Cons)
  qed
qed

text \<open>
  C8. On an empty trial list the minimum raises ValueError; the mean is NaN, with no
  exception, and is appended to the list of means before the percentile raises
  IndexError.
\<close>

theorem empty_trials_counterexample:
  "minimum_aggregate [[]] = Inl ValueError
   \<and> np_mean [] = NaN
   \<and> confidence_interval (9 / 10) [20] ''one'' [1] [[]] [20] =
       Inl (IndexError,
            \<lparr>mi_means_across_photons = [1], classifier_means_across_photons = [NaN],
             classifier_lower_across_photons = [], classifier_upper_across_photons = []\<rparr>)"
  by (simp add: minimum_aggregate_def confidence_interval_def confidence_interval_step_def
        index_def np_percentile_def empty_interval_state_def marker_for_psf_def)

text \<open>
  C8, as the code has it. The notebook defines no error class of its own. A grid with an
  empty trial list makes the minimum raise the array library's ValueError. In the
  confidence-interval loop, for a confidence level strictly between 0 and 1 and a PSF name
  that has a marker, the mean of an empty trial list is NaN and is appended, and the loop
  then ends at the lower percentile with the array library's IndexError.
\<close>

theorem empty_trials_raise_library_errors:
  assumes rows: "[] \<in> set rows"
      and valid: "photon_count \<in> set valid"
      and im: "photon_idx < length mi_row"
      and it: "photon_idx < length trials"
      and empty: "trials ! photon_idx = []"
      and cl: "0 < cl" "cl < 1"
      and psf: "psf_name \<in> set [''one'', ''four'', ''diffuser'', ''uc'', ''two'']"
  shows "minimum_aggregate rows = Inl ValueError
       \<and> np_mean (trials ! photon_idx) = NaN
       \<and> confidence_interval_step cl valid psf_name mi_row trials photon_idx photon_count st =
           Inl (IndexError,
                st\<lparr>mi_means_across_photons :=
                     mi_means_across_photons st @ [mi_row ! photon_idx],
                   classifier_means_across_photons :=
                     classifier_means_across_photons st @ [NaN]\<rparr>)"
proof -
  have q: "\<not> (100 - 100 * (1 + cl) / 2 < 0 \<or> 100 < 100 - 100 * (1 + cl) / 2)"
    using cl by simp
  obtain marker where marker: "marker_for_psf psf_name = Inr marker"
    using marker_for_psf_known [OF psf] by blast
  have "np_percentile [] (100 - 100 * (1 + cl) / 2) = Inl IndexError"
    using q by (simp add: np_percentile_def)
  then have "confidence_interval_step cl valid psf_name mi_row trials photon_idx photon_count st =
           Inl (IndexError,
                st\<lparr>mi_means_across_photons :=
                     mi_means_across_photons st @ [mi_row ! photon_idx],
                   classifier_means_across_photons :=
                     classifier_means_across_photons st @ [NaN]\<rparr>)"
    using valid im it empty marker
    by (simp add: confidence_interval_step_def index_def Let_def)
  then show ?thesis
    using minimum_aggregate_empty_row [OF rows] empty by simp
qed

theorem empty_trials_raise_library_errors_witness:
  "[] \<in> set [[1, 2], [] :: real list] \<and> (40::int) \<in> set [20, 40]
   \<and> (0::nat) < length [3 / 2 :: real] \<and> (0::nat) < length [[] :: real list]
   \<and> [[] :: real list] ! 0 = [] \<and> (0::real) < 9 / 10 \<and> (9::real) / 10 < 1
   \<and> ''diffuser'' \<in> set [''one'', ''four'', ''diffuser'', ''uc'', ''two'']
   \<and> minimum_aggregate [[1, 2], []] = Inl ValueError
   \<and> confidence_interval_step (9 / 10) [20, 40] ''diffuser'' [3 / 2] [[]] 0 40 empty_interval_state =
       Inl (IndexError,
            \<lparr>mi_means_across_photons = [3 / 2], classifier_means_across_photons = [NaN],
             classifier_lower_across_photons = [], classifier_upper_across_photons = []\<rparr>)"
proof -
  have a: "[] \<in> set [[1, 2], [] :: real list]" by simp
  have b: "(40::int) \<in> set [20, 40]" by simp
  have c: "(0::nat) < length [3 / 2 :: real]" by simp
  have d: "(0::nat) < length [[] :: real list]" by simp
  have e: "[[] :: real list] ! 0 = []" by simp
  have f: "(0::real) < 9 / 10" and g: "(9::real) / 10 < 1" by simp_all
  have h: "''diffuser'' \<in> set [''one'', ''four'', ''diffuser'', ''uc'', ''two'']" by simp
  show ?thesis
    using empty_trials_raise_library_errors [OF a b c d e f g h, of empty_interval_state]
    by (simp add: empty_interval_state_def)
qed

section \<open>Properties of the marker mapping\<close>

text \<open>
  C9. The loads are keyed by the PSF name through the path only and compare it with no
  label set: for the name \<open>three\<close>, outside the five, the load and the classifier
  loading cell return the stored arrays wherever the files exist.
\<close>

theorem psf_name_outside_labels_counterexample:
  "''three'' \<notin> set [''one'', ''four'', ''diffuser'', ''uc'', ''two'']
   \<and> np_load three_trial_files (classifier_path [] 20 ''three'' 10 ''cnn'') =
       Inr [1 / 2, 3 / 5, 7 / 10]
   \<and> classifier_all_trials_across_psfs three_trial_files [] bias [''three'']
        mean_photon_count_list =
       Inr [replicate 9 [1 / 2, 3 / 5, 7 / 10]]
   \<and> mean_plot_inputs three_trial_files positive_zeros [] ''three'' [20] =
       Inr ([[1 / 2, 3 / 5, 7 / 10]], [[1 / 2, 3 / 5, 7 / 10]])"
  by (simp add: classifier_all_trials_across_psfs_def mean_photon_count_list_def np_load_def
        np_array_rows_def np_array_grids_def shape_def three_trial_files_def
        mean_plot_inputs_def outlier_clip_def np_div_def eval_nat_numeral)

text \<open>
  C9, as the code has it. For every PSF name outside \<open>one\<close>, \<open>four\<close>,
  \<open>diffuser\<close>, \<open>uc\<close>, \<open>two\<close> the marker lookup raises an error
  (UnboundLocalError) and returns no default; for the five names it returns the markers
  \<open>o\<close>, \<open>s\<close>, \<open>*\<close>, \<open>x\<close>, \<open>d\<close>, which are pairwise distinct.
\<close>

theorem marker_for_psf_lookup:
  assumes "psf_name \<notin> set [''one'', ''four'', ''diffuser'', ''uc'', ''two'']"
  shows "marker_for_psf psf_name = Inl UnboundLocalError
       \<and> map marker_for_psf [''one'', ''four'', ''diffuser'', ''uc'', ''two''] =
           [Inr ''o'', Inr ''s'', Inr ''*'', Inr ''x'', Inr ''d'']
       \<and> distinct (map marker_for_psf [''one'', ''four'', ''diffuser'', ''uc'', ''two''])"
  using assms by (simp add: marker_for_psf_def)

theorem marker_for_psf_lookup_witness:
  "''three'' \<notin> set [''one'', ''four'', ''diffuser'', ''uc'', ''two'']
   \<and> marker_for_psf ''three'' = Inl UnboundLocalError
   \<and> marker_for_psf ''diffuser'' = Inr ''*''"
proof -
  have h: "''three'' \<notin> set [''one'', ''four'', ''diffuser'', ''uc'', ''two'']" by simp
  show ?thesis
    using h marker_for_psf_lookup [OF h] by simp
qed

section \<open>Properties of the mean plot with error bars\<close>

lemma outlier_clip_total:
  assumes "v \<noteq> []"
  shows "\<exists>r. outlier_clip z t v = Inr r"
  using assms by (cases v) (simp_all add: outlier_clip_def)

lemma mean_plot_photons_result:
  assumes g: "map (\<lambda>pc. fs (gaussian_mi_path mi_folder pc psf_name)) pcs = map Some G"
      and p: "map (\<lambda>pc. fs (pixelcnn_mi_path mi_folder pc psf_name)) pcs = map Some P"
      and ne: "\<forall>a\<in>set P. a \<noteq> []"
  shows "\<exists>C. mean_plot_photons fs min_zero_of mi_folder psf_name pcs (gs0, ps0) =
               Inr (gs0 @ G, ps0 @ C)
             \<and> map Inr C =
                 map (\<lambda>(pc, a). outlier_clip
                                  (min_zero_of (pixelcnn_mi_path mi_folder pc psf_name)) 2 a)
                   (zip pcs P)"
  using g p ne
proof (induction pcs arbitrary: G P gs0 ps0)
  case Nil
  then show ?case by simp
next
  case (Cons pc pcs)
  from Cons.prems obtain g0 G' p0 P' where
    G: "G = g0 # G'" and g0: "fs (gaussian_mi_path mi_folder pc psf_name) = Some g0"
    and G': "map (\<lambda>pc. fs (gaussian_mi_path mi_folder pc psf_name)) pcs = map Some G'"
    and P: "P = p0 # P'" and p0: "fs (pixelcnn_mi_path mi_folder pc psf_name) = Some p0"
    and P': "map (\<lambda>pc. fs (pixelcnn_mi_path mi_folder pc psf_name)) pcs = map Some P'"
    by (auto simp: Cons_eq_map_conv)
  have ne': "\<forall>a\<in>set P'. a \<noteq> []" and p0ne: "p0 \<noteq> []" using Cons.prems(3) P by simp_all
  obtain c0 where
    c0: "outlier_clip (min_zero_of (pixelcnn_mi_path mi_folder pc psf_name)) 2 p0 = Inr c0"
    using outlier_clip_total [OF p0ne] by blast
  from Cons.IH [OF G' P' ne', of "gs0 @ [g0]" "ps0 @ [c0]"] obtain C' where
    C': "mean_plot_photons fs min_zero_of mi_folder psf_name pcs (gs0 @ [g0], ps0 @ [c0]) =
           Inr ((gs0 @ [g0]) @ G', (ps0 @ [c0]) @ C')"
    and clip: "map Inr C' =
                 map (\<lambda>(pc, a). outlier_clip
                                  (min_zero_of (pixelcnn_mi_path mi_folder pc psf_name)) 2 a)
                   (zip pcs P')"
    by blast
  show ?case
    using C' clip g0 p0 c0
    by (intro exI [where x = "c0 # C'"]) (simp add: np_load_def G P)
qed

text \<open>
  C10. When every file of the PSF exists and no PixelCNN array is empty, the loop
  succeeds; the Gaussian arrays it passes on are the loaded arrays, element for element
  and in order, and the PixelCNN arrays it passes on are the loaded arrays after the
  clipping with threshold 2.
\<close>

theorem gaussian_estimates_unclipped:
  assumes g: "map (\<lambda>pc. fs (gaussian_mi_path mi_folder pc psf_name)) pcs = map Some G"
      and p: "map (\<lambda>pc. fs (pixelcnn_mi_path mi_folder pc psf_name)) pcs = map Some P"
      and ne: "\<forall>a\<in>set P. a \<noteq> []"
  shows "\<exists>C. mean_plot_inputs fs min_zero_of mi_folder psf_name pcs = Inr (G, C)
             \<and> map Inr C =
                 map (\<lambda>(pc, a). outlier_clip
                                  (min_zero_of (pixelcnn_mi_path mi_folder pc psf_name)) 2 a)
                   (zip pcs P)"
  using mean_plot_photons_result [OF g p ne, of min_zero_of "[]" "[]"]
  by (simp add: mean_plot_inputs_def)

theorem gaussian_estimates_unclipped_witness:
  "map (\<lambda>pc. sample_files (gaussian_mi_path [] pc ''one'')) [20] = map Some [[1, 5]]
   \<and> map (\<lambda>pc. sample_files (pixelcnn_mi_path [] pc ''one'')) [20] = map Some [[2, 5, 3]]
   \<and> [] \<notin> set [[2, 5, 3 :: real]]
   \<and> mean_plot_inputs sample_files positive_zeros [] ''one'' [20] =
       Inr ([[1, 5]], [[2, 2, 3]])
   \<and> outlier_clip PosZero 2 [1, 5] = Inr [1, 1]"
proof -
  have g: "map (\<lambda>pc. sample_files (gaussian_mi_path [] pc ''one'')) [20] = map Some [[1, 5]]"
    by (simp add: sample_files_def gaussian_mi_path_def str_int_20)
  have p: "map (\<lambda>pc. sample_files (pixelcnn_mi_path [] pc ''one'')) [20] = map Some [[2, 5, 3]]"
    by (simp add: sample_files_def pixelcnn_mi_path_def str_int_20)
  have ne: "\<forall>a\<in>set [[2, 5, 3 :: real]]. a \<noteq> []" by simp
  have c: "outlier_clip z 2 [2, 5, 3] = Inr [2, 2, 3]" for z
    by (simp add: outlier_clip_def np_div_def)
  have c': "outlier_clip PosZero 2 [1, 5] = Inr [1, 1]"
    by (simp add: outlier_clip_def np_div_def)
  from gaussian_estimates_unclipped [OF g p ne, of positive_zeros] obtain C where
    r: "mean_plot_inputs sample_files positive_zeros [] ''one'' [20] = Inr ([[1, 5]], C)"
    and m: "map Inr C =
              map (\<lambda>(pc, a). outlier_clip (positive_zeros (pixelcnn_mi_path [] pc ''one'')) 2 a)
                (zip [20] [[2, 5, 3]])"
    by blast
  have "map Inr C = (map Inr [[2, 2, 3]] :: (error + real list) list)"
    using m c by simp
  then have "C = [[2, 2, 3]]"
    by (simp only: inj_map_eq_map [OF inj_Inr])
  then show ?thesis using r g p ne c' by simp
qed

end
